theory Spec2Isabelle
  imports Complex_Main "HOL-Library.Word"
begin

unbundle bit_operations_syntax

section \<open>Flight control stick controller (3A3A1-STICK\_CONTROLLER.ino)\<close>

text \<open>
  The sketch reads two MT6835 absolute encoders and a 24-bit grip frame over SPI, keeps
  a zero-point calibration in EEPROM and maps the angular offsets to HID axis values.
  Machine integers are words of the width the source declares (\<open>uint8_t\<close> is
  \<open>8 word\<close>, \<open>uint32_t\<close> is \<open>32 word\<close>).
\<close>

type_synonym u8 = "8 word"
type_synonym u32 = "32 word"

subsection \<open>MT6835 CRC (CRC-8, polynomial 0x07, MSB first, over 24 bits)\<close>

text \<open>
  One pass of the body of the \<open>for\<close> loop of \<open>mt_crc8_24bits_msb\<close>, for loop index \<open>i\<close>:
  \<^verbatim>\<open>uint8_t bit = (data24 >> i) & 0x01; uint8_t c7 = (crc >> 7) & 0x01;
  crc <<= 1; if (c7 ^ bit) crc ^= 0x07;\<close>
\<close>

definition crc8_body :: "u32 \<Rightarrow> nat \<Rightarrow> u8 \<Rightarrow> u8" where
  "crc8_body data24 i crc =
     (let b = (ucast (drop_bit i data24 AND 1) :: u8);
          c7 = drop_bit 7 crc AND 1;
          crc1 = push_bit 1 crc
      in if c7 XOR b \<noteq> 0 then crc1 XOR 7 else crc1)"

text \<open>
  The loop \<open>for (int i = 23; i >= 0; --i)\<close>: \<open>crc8_loop data24 n crc\<close> runs the passes
  for \<open>i = n - 1\<close> down to \<open>i = 0\<close>.
\<close>

primrec crc8_loop :: "u32 \<Rightarrow> nat \<Rightarrow> u8 \<Rightarrow> u8" where
  "crc8_loop data24 0 crc = crc"
| "crc8_loop data24 (Suc n) crc = crc8_loop data24 n (crc8_body data24 n crc)"

definition mt_crc8_24bits_msb :: "u32 \<Rightarrow> u8" where
  "mt_crc8_24bits_msb data24 = crc8_loop data24 24 0"


subsection \<open>Burst read of one MT6835 encoder\<close>

record MT6835_Result =
  angle21 :: u32
  status3 :: u8
  crc_ok :: bool

text \<open>
  The four bytes the sensor returns for registers 0x003 to 0x006 in one burst
  transaction (\<open>r003\<close>, \<open>r004\<close>, \<open>r005\<close>, \<open>r006\<close>). The chip-select pin only chooses
  which sensor answers, so the bytes that sensor sent are the argument here.
\<close>

type_synonym spi4 = "u8 \<times> u8 \<times> u8 \<times> u8"

definition MT6835_USE_CRC :: bool where
  "MT6835_USE_CRC = True"

definition readMT6835_burstAngle :: "spi4 \<Rightarrow> MT6835_Result" where
  "readMT6835_burstAngle rx =
     (case rx of (r003, r004, r005, r006) \<Rightarrow>
        let a21 = push_bit 13 (ucast r003 :: u32) OR push_bit 5 (ucast r004 :: u32)
                    OR ((ucast (drop_bit 3 r005) :: u32) AND 0x1F);
            st3 = r005 AND 0x07;
            res_angle = a21 AND 0x1FFFFF;
            data24 = push_bit 3 (res_angle AND 0x1FFFFF) OR (ucast (st3 AND 0x07) :: u32);
            crc = mt_crc8_24bits_msb data24
        in \<lparr>angle21 = res_angle, status3 = st3,
            crc_ok = (if MT6835_USE_CRC then crc = r006 else True)\<rparr>)"

subsection \<open>EEPROM storage of the two centers\<close>

text \<open>
  The EEPROM is a byte store indexed by address. \<open>EEPROM.update\<close> writes a cell only
  when the stored byte differs from the new one.
\<close>

type_synonym eeprom = "nat \<Rightarrow> u8"

definition EEPROM_update :: "eeprom \<Rightarrow> nat \<Rightarrow> u8 \<Rightarrow> eeprom" where
  "EEPROM_update mem addr v = (if mem addr \<noteq> v then mem(addr := v) else mem)"

definition EEPROM_read :: "eeprom \<Rightarrow> nat \<Rightarrow> u8" where
  "EEPROM_read mem addr = mem addr"

definition EEPROM_MAGIC :: u32 where
  "EEPROM_MAGIC = 0x4A53434C"

definition EEPROM_ADDR_MAGIC :: nat where
  "EEPROM_ADDR_MAGIC = 0"

definition EEPROM_ADDR_ROLL :: nat where
  "EEPROM_ADDR_ROLL = EEPROM_ADDR_MAGIC + 4"

definition EEPROM_ADDR_PITCH :: nat where
  "EEPROM_ADDR_PITCH = EEPROM_ADDR_ROLL + 4"

definition eepromWriteU32 :: "eeprom \<Rightarrow> nat \<Rightarrow> u32 \<Rightarrow> eeprom" where
  "eepromWriteU32 mem addr v =
     (let m0 = EEPROM_update mem (addr + 0) (ucast (drop_bit 0 v));
          m1 = EEPROM_update m0 (addr + 1) (ucast (drop_bit 8 v));
          m2 = EEPROM_update m1 (addr + 2) (ucast (drop_bit 16 v));
          m3 = EEPROM_update m2 (addr + 3) (ucast (drop_bit 24 v))
      in m3)"

definition eepromReadU32 :: "eeprom \<Rightarrow> nat \<Rightarrow> u32" where
  "eepromReadU32 mem addr =
     (let v0 = (0 :: u32);
          v1 = v0 OR push_bit 0 (ucast (EEPROM_read mem (addr + 0)));
          v2 = v1 OR push_bit 8 (ucast (EEPROM_read mem (addr + 1)));
          v3 = v2 OR push_bit 16 (ucast (EEPROM_read mem (addr + 2)));
          v4 = v3 OR push_bit 24 (ucast (EEPROM_read mem (addr + 3)))
      in v4)"

text \<open>
  \<open>loadCentersFromEEPROM\<close> takes \<open>r\<close> and \<open>p\<close> by reference: the result is the returned
  flag together with the values the two references hold afterwards. A magic mismatch
  returns before either is assigned; a failed 21-bit check returns after both are.
\<close>

definition loadCentersFromEEPROM :: "eeprom \<Rightarrow> u32 \<Rightarrow> u32 \<Rightarrow> bool \<times> u32 \<times> u32" where
  "loadCentersFromEEPROM mem r p =
     (let magic = eepromReadU32 mem EEPROM_ADDR_MAGIC
      in if magic \<noteq> EEPROM_MAGIC then (False, r, p)
         else let r1 = eepromReadU32 mem EEPROM_ADDR_ROLL;
                  p1 = eepromReadU32 mem EEPROM_ADDR_PITCH
              in if r1 AND 0x1FFFFF \<noteq> r1 then (False, r1, p1)
                 else if p1 AND 0x1FFFFF \<noteq> p1 then (False, r1, p1)
                 else (True, r1, p1))"

definition saveCentersToEEPROM :: "eeprom \<Rightarrow> u32 \<Rightarrow> u32 \<Rightarrow> eeprom" where
  "saveCentersToEEPROM mem r p =
     (let m1 = eepromWriteU32 mem EEPROM_ADDR_MAGIC EEPROM_MAGIC;
          m2 = eepromWriteU32 m1 EEPROM_ADDR_ROLL (r AND 0x1FFFFF);
          m3 = eepromWriteU32 m2 EEPROM_ADDR_PITCH (p AND 0x1FFFFF)
      in m3)"


subsection \<open>Angles\<close>

text \<open>
  The sketch computes angles in \<open>float\<close>. They are modelled by exact real numbers: each
  arithmetic operation below is the mathematical one, without the rounding of the
  binary32 format. The examples and counterexamples given further down for
  \<open>wrapDiffDeg\<close>, \<open>angle21ToDeg\<close> and the two mapping functions use dyadic inputs at
  which every single-precision operation of the function is exact, so that the code
  computes the very values shown. In the real-number model both loops of \<open>wrapDiffDeg\<close>
  terminate for every argument.
\<close>

definition MT_ANGLE_FULL_SCALE :: u32 where
  "MT_ANGLE_FULL_SCALE = 2097152"

definition angle21ToDeg :: "u32 \<Rightarrow> real" where
  "angle21ToDeg a =
     (let a21 = a AND 0x1FFFFF
      in (360 * real (unat a21)) / real (unat MT_ANGLE_FULL_SCALE))"

text \<open>The two \<open>while\<close> loops of \<open>wrapDiffDeg\<close>, in the order they run.\<close>

function wrapDiffDeg_sub :: "real \<Rightarrow> real" where
  "wrapDiffDeg_sub d = (if d > 180 then wrapDiffDeg_sub (d - 360) else d)"
  by pat_completeness auto
termination
proof (relation "measure (\<lambda>d. nat \<lceil>d\<rceil>)")
  show "wf (measure (\<lambda>d::real. nat \<lceil>d\<rceil>))" by simp
next
  fix d :: real
  assume "180 < d"
  then have "\<lceil>d - 360\<rceil> < \<lceil>d\<rceil>" and "0 < \<lceil>d\<rceil>"
    by linarith+
  then show "(d - 360, d) \<in> measure (\<lambda>d. nat \<lceil>d\<rceil>)"
    by simp
qed

function wrapDiffDeg_add :: "real \<Rightarrow> real" where
  "wrapDiffDeg_add d = (if d < - 180 then wrapDiffDeg_add (d + 360) else d)"
  by pat_completeness auto
termination
proof (relation "measure (\<lambda>d. nat \<lceil>- d\<rceil>)")
  show "wf (measure (\<lambda>d::real. nat \<lceil>- d\<rceil>))" by simp
next
  fix d :: real
  assume "d < - 180"
  then have "\<lceil>- (d + 360)\<rceil> < \<lceil>- d\<rceil>" and "0 < \<lceil>- d\<rceil>"
    by linarith+
  then show "(d + 360, d) \<in> measure (\<lambda>d. nat \<lceil>- d\<rceil>)"
    by simp
qed

definition wrapDiffDeg :: "real \<Rightarrow> real \<Rightarrow> real" where
  "wrapDiffDeg aDeg bDeg = wrapDiffDeg_add (wrapDiffDeg_sub (aDeg - bDeg))"

subsection \<open>Axis mapping\<close>

definition HID_MIN :: int where
  "HID_MIN = - 32767"

definition HID_MAX :: int where
  "HID_MAX = 32767"

text \<open>
  The cast \<open>(int32_t)x\<close> of a \<open>float\<close> discards the fractional part (rounds towards
  zero). C leaves the cast undefined when the integral part does not fit the target
  type; that case is \<open>None\<close>.
\<close>

definition float_to_int32 :: "real \<Rightarrow> int option" where
  "float_to_int32 x =
     (let t = (if x < 0 then \<lceil>x\<rceil> else \<lfloor>x\<rfloor>)
      in if - (2 ^ 31) \<le> t \<and> t < 2 ^ 31 then Some t else None)"

text \<open>
  The tail shared by both mapping functions: scale to the HID range, convert, clamp.
  The result lies in \<open>[HID_MIN, HID_MAX]\<close>, so the final cast to \<open>int16_t\<close> keeps it.
\<close>

definition scale_to_HID :: "real \<Rightarrow> int option" where
  "scale_to_HID signedNorm =
     (case float_to_int32 (signedNorm * 32767) of
        None \<Rightarrow> None
      | Some v \<Rightarrow>
          let v1 = (if v > HID_MAX then HID_MAX else v);
              v2 = (if v1 < HID_MIN then HID_MIN else v1)
          in Some v2)"

text \<open>
  A division by zero yields an infinity or a NaN in C, and converting either to
  \<open>int32_t\<close> is undefined; the model returns \<open>None\<close> there instead of HOL's \<open>x / 0 = 0\<close>.
\<close>

definition mapDegToHID_Symmetric :: "real \<Rightarrow> real \<Rightarrow> real \<Rightarrow> int option" where
  "mapDegToHID_Symmetric deltaDeg halfRangeDeg deadzoneDeg =
     (let d1 = (if deltaDeg > halfRangeDeg then halfRangeDeg else deltaDeg);
          d2 = (if d1 < - halfRangeDeg then - halfRangeDeg else d1);
          a = \<bar>d2\<bar>;
          dz1 = (if deadzoneDeg < 0 then 0 else deadzoneDeg);
          dz2 = (if dz1 > halfRangeDeg then halfRangeDeg else dz1)
      in if a \<le> dz2 then Some 0
         else if halfRangeDeg - dz2 = 0 then None
         else let scaled = (a - dz2) / (halfRangeDeg - dz2);
                  signedNorm = (if d2 < 0 then - scaled else scaled)
              in scale_to_HID signedNorm)"

text \<open>
  The guard of \<open>mapDegToHID_Asymmetric\<close> compares with \<open>0.001f\<close>, the single-precision
  number nearest to 0.001. It lies just above 0.001 and no single-precision number lies
  between the two, so on \<open>float\<close> arguments the comparison with 0.001 decides alike.
\<close>

definition mapDegToHID_Asymmetric :: "real \<Rightarrow> real \<Rightarrow> real \<Rightarrow> real \<Rightarrow> int option" where
  "mapDegToHID_Asymmetric deltaDeg rangePosDeg rangeNegDeg deadzoneDeg =
     (let range = (if deltaDeg \<ge> 0 then rangePosDeg else rangeNegDeg)
      in if range < 0.001 then Some 0
         else
           let d1 = (if deltaDeg > rangePosDeg then rangePosDeg else deltaDeg);
               d2 = (if d1 < - rangeNegDeg then - rangeNegDeg else d1);
               a = \<bar>d2\<bar>;
               dz1 = (if deadzoneDeg < 0 then 0 else deadzoneDeg);
               dz2 = (if dz1 > range then range else dz1)
           in if a \<le> dz2 then Some 0
              else if range - dz2 = 0 then None
              else let scaled = (a - dz2) / (range - dz2);
                       signedNorm = (if d2 < 0 then - scaled else scaled)
                   in scale_to_HID signedNorm)"


subsection \<open>Grip frame, buttons and hat\<close>

type_synonym spi3 = "u8 \<times> u8 \<times> u8"

definition readGrip24 :: "spi3 \<Rightarrow> u32" where
  "readGrip24 rx =
     (case rx of (b2, b1, b0) \<Rightarrow>
        push_bit 16 (ucast b2 :: u32) OR push_bit 8 (ucast b1 :: u32) OR (ucast b0 :: u32))"

definition getBit24 :: "u32 \<Rightarrow> nat \<Rightarrow> bool" where
  "getBit24 v bitIndex = (drop_bit bitIndex v AND 0x01 \<noteq> 0)"

definition BIT_FIRE_TRIGGER_1E_CRAN :: nat where
  "BIT_FIRE_TRIGGER_1E_CRAN = 23"

definition BIT_RECCE_EVENT_MARK :: nat where
  "BIT_RECCE_EVENT_MARK = 17"

definition BIT_TRIM_NOSE_DOWN :: nat where
  "BIT_TRIM_NOSE_DOWN = 15"

definition BIT_TRIM_NOSE_UP :: nat where
  "BIT_TRIM_NOSE_UP = 13"

definition BIT_TRIM_LWD :: nat where
  "BIT_TRIM_LWD = 12"

definition BIT_TRIM_RWD :: nat where
  "BIT_TRIM_RWD = 14"

definition recenterComboPressed :: "u32 \<Rightarrow> bool" where
  "recenterComboPressed grip24 =
     (let recce = getBit24 grip24 BIT_RECCE_EVENT_MARK;
          trig1 = getBit24 grip24 BIT_FIRE_TRIGGER_1E_CRAN
      in recce \<and> trig1)"

definition computeHatFromTrim :: "u32 \<Rightarrow> int" where
  "computeHatFromTrim grip24 =
     (let up = getBit24 grip24 BIT_TRIM_NOSE_DOWN;
          down = getBit24 grip24 BIT_TRIM_NOSE_UP;
          left = getBit24 grip24 BIT_TRIM_LWD;
          right = getBit24 grip24 BIT_TRIM_RWD
      in if \<not> up \<and> \<not> down \<and> \<not> left \<and> \<not> right then - 1
         else if up \<and> right then 45
         else if up \<and> left then 315
         else if down \<and> right then 135
         else if down \<and> left then 225
         else if up then 0
         else if right then 90
         else if down then 180
         else if left then 270
         else - 1)"

text \<open>The calls the sketch makes on the \<open>Joystick\<close> object, the HID boundary.\<close>

datatype hid_call =
  SetXAxis int
| SetYAxis int
| SetButton nat bool
| SetHatSwitch nat int

text \<open>
  \<open>updateButtonsFromGrip\<close>: one \<open>setButton\<close> per line of the source, in its order; each
  pair is the HID button index and the grip bit it reads.
\<close>

definition button_table :: "(nat \<times> nat) list" where
  "button_table =
     [(0, 23), (1, 20), (2, 19), (3, 18), (4, 17), (5, 16),
      (6, 11), (7, 10), (8, 9), (9, 8), (13, 4),
      (10, 7), (11, 6), (12, 5),
      (14, 3), (15, 2), (16, 1), (17, 0), (18, 22)]"

definition updateButtonsFromGrip :: "u32 \<Rightarrow> hid_call list" where
  "updateButtonsFromGrip g = map (\<lambda>(hid, b). SetButton hid (getBit24 g b)) button_table"

subsection \<open>Controller state\<close>

text \<open>
  The file-scope variables of the sketch, the two \<open>static\<close> locals of \<open>loop\<close>
  (\<open>rollDegPrev\<close>, \<open>pitchDegPrev\<close>), the EEPROM contents, and the calls made on the
  \<open>Joystick\<close> object so far (oldest first). \<open>int16_t\<close> values are integers; every value
  the sketch stores in one lies within the type's range.
\<close>

record state =
  lastGrip24 :: u32
  lastX :: int
  lastY :: int
  lastHat :: int
  rollCenter :: u32
  pitchCenter :: u32
  centersValid :: bool
  recenterArmed :: bool
  recenterStartMs :: u32
  recenterDoneThisHold :: bool
  recenterSafeTriedThisHold :: bool
  rollDegPrev :: real
  pitchDegPrev :: real
  eeprom_data :: eeprom
  hid_calls :: "hid_call list"

text \<open>The state at power-on: every variable at its initialiser, the EEPROM as found.\<close>

definition power_on :: "eeprom \<Rightarrow> state" where
  "power_on mem =
     \<lparr>lastGrip24 = 0xFFFFFFFF, lastX = 0x7FFF, lastY = 0x7FFF, lastHat = - 2,
      rollCenter = 0, pitchCenter = 0, centersValid = False,
      recenterArmed = False, recenterStartMs = 0,
      recenterDoneThisHold = False, recenterSafeTriedThisHold = False,
      rollDegPrev = 0, pitchDegPrev = 0,
      eeprom_data = mem, hid_calls = []\<rparr>"

definition ROLL_TOTAL_DEG :: real where
  "ROLL_TOTAL_DEG = 31"

definition ROLL_HALF_DEG :: real where
  "ROLL_HALF_DEG = ROLL_TOTAL_DEG * 0.5"

definition ROLL_SENSOR_TO_MECH_SCALE :: real where
  "ROLL_SENSOR_TO_MECH_SCALE = 15.5 / 110"

definition PITCH_TOTAL_DEG :: real where
  "PITCH_TOTAL_DEG = 24"

definition PITCH_CABRER_DEG :: real where
  "PITCH_CABRER_DEG = PITCH_TOTAL_DEG * (2 / 3)"

definition PITCH_PIQUER_DEG :: real where
  "PITCH_PIQUER_DEG = PITCH_TOTAL_DEG * (1 / 3)"

definition INVERT_ROLL :: bool where
  "INVERT_ROLL = False"

definition INVERT_PITCH :: bool where
  "INVERT_PITCH = False"

definition DEADZONE_ROLL_DEG :: real where
  "DEADZONE_ROLL_DEG = 0.3"

definition DEADZONE_PITCH_DEG :: real where
  "DEADZONE_PITCH_DEG = 0.3"

definition RECENTER_HOLD_MS :: u32 where
  "RECENTER_HOLD_MS = 2000"

definition RECENTER_FORCE_HOLD_MS :: u32 where
  "RECENTER_FORCE_HOLD_MS = 6000"

definition RECENTER_MAX_ROLL_ERR_DEG :: real where
  "RECENTER_MAX_ROLL_ERR_DEG = 1.2"

definition RECENTER_MAX_PITCH_ERR_DEG :: real where
  "RECENTER_MAX_PITCH_ERR_DEG = 1.2"


subsection \<open>Startup\<close>

text \<open>
  The bootstrap loop of \<open>setup\<close>, \<open>for (int i = 0; i < 8; i++)\<close>. The argument \<open>rx\<close> gives,
  for each pass \<open>i\<close>, the bytes the roll and the pitch sensor answer with in that pass.
\<close>

function bootstrap_loop :: "(nat \<Rightarrow> spi4 \<times> spi4) \<Rightarrow> nat \<Rightarrow> state \<Rightarrow> state" where
  "bootstrap_loop rx i s =
     (if i < 8 then
        let r = readMT6835_burstAngle (fst (rx i));
            s1 = (if crc_ok r then s\<lparr>rollCenter := angle21 r\<rparr> else s);
            p = readMT6835_burstAngle (snd (rx i));
            s2 = (if crc_ok p then s1\<lparr>pitchCenter := angle21 p\<rparr> else s1)
        in bootstrap_loop rx (i + 1) s2
      else s)"
  by pat_completeness auto
termination
  by (relation "measure (\<lambda>(rx, i, s). 8 - i)") auto

text \<open>
  \<open>setup\<close>, from the power-on state over the EEPROM contents \<open>mem\<close>. Pin and SPI
  initialisation, the axis-range configuration of the \<open>Joystick\<close> object and the debug
  output (compiled out, \<open>DEBUG_SERIAL\<close> is 0) leave the state below unchanged.
\<close>

definition sketch_setup :: "eeprom \<Rightarrow> (nat \<Rightarrow> spi4 \<times> spi4) \<Rightarrow> state" where
  "sketch_setup mem rx =
     (let s0 = power_on mem;
          (ok, r, p) = loadCentersFromEEPROM (eeprom_data s0) (rollCenter s0) (pitchCenter s0);
          s1 = s0\<lparr>rollCenter := r, pitchCenter := p, centersValid := ok\<rparr>
      in if \<not> centersValid s1 then
           let s2 = bootstrap_loop rx 0 s1;
               s3 = s2\<lparr>eeprom_data := saveCentersToEEPROM (eeprom_data s2) (rollCenter s2) (pitchCenter s2)\<rparr>
           in s3\<lparr>centersValid := True\<rparr>
         else s1)"

subsection \<open>Main loop\<close>

text \<open>
  What one pass of \<open>loop\<close> takes from outside: the bytes each peripheral answers with
  and the value \<open>millis()\<close> returns (every path calls it at most once).
\<close>

record cycle_input =
  rx_roll :: spi4
  rx_pitch :: spi4
  rx_grip :: spi3
  now_ms :: u32

text \<open>The three places where the recenter logic stores new centers.\<close>

definition store_centers :: "state \<Rightarrow> MT6835_Result \<Rightarrow> MT6835_Result \<Rightarrow> state" where
  "store_centers s roll pitch =
     (let s1 = s\<lparr>rollCenter := angle21 roll\<rparr>;
          s2 = s1\<lparr>pitchCenter := angle21 pitch\<rparr>
      in s2\<lparr>eeprom_data := saveCentersToEEPROM (eeprom_data s2) (rollCenter s2) (pitchCenter s2)\<rparr>)"

text \<open>The recenter section of \<open>loop\<close> (safe recenter at 2 s, forced at 6 s).\<close>

definition loop_recenter ::
  "state \<Rightarrow> MT6835_Result \<Rightarrow> MT6835_Result \<Rightarrow> real \<Rightarrow> real \<Rightarrow> u32 \<Rightarrow> u32 \<Rightarrow> state" where
  "loop_recenter s roll pitch rollDelta pitchDelta grip24 now =
     (let combo = recenterComboPressed grip24
      in if combo then
           (if \<not> recenterArmed s then
              s\<lparr>recenterArmed := True, recenterStartMs := now,
                recenterDoneThisHold := False, recenterSafeTriedThisHold := False\<rparr>
            else if \<not> recenterDoneThisHold s then
              (let held = now - recenterStartMs s
               in if held \<ge> RECENTER_FORCE_HOLD_MS then
                    (let s1 = (if crc_ok roll \<and> crc_ok pitch
                               then (store_centers s roll pitch)\<lparr>centersValid := True\<rparr>
                               else s)
                     in s1\<lparr>recenterDoneThisHold := True\<rparr>)
                  else if held \<ge> RECENTER_HOLD_MS \<and> \<not> recenterSafeTriedThisHold s then
                    (let s1 = s\<lparr>recenterSafeTriedThisHold := True\<rparr>
                     in if \<not> centersValid s1 then
                          (let s2 = (if crc_ok roll \<and> crc_ok pitch
                                     then (store_centers s1 roll pitch)\<lparr>centersValid := True\<rparr>
                                     else s1)
                           in s2\<lparr>recenterDoneThisHold := True\<rparr>)
                        else
                          (let rErr = \<bar>rollDelta\<bar>;
                               pErr = \<bar>pitchDelta\<bar>;
                               okPos = (rErr \<le> RECENTER_MAX_ROLL_ERR_DEG
                                         \<and> pErr \<le> RECENTER_MAX_PITCH_ERR_DEG)
                           in if okPos \<and> crc_ok roll \<and> crc_ok pitch then
                                (store_centers s1 roll pitch)\<lparr>recenterDoneThisHold := True\<rparr>
                              else s1))
                  else s)
            else s)
         else
           s\<lparr>recenterArmed := False, recenterDoneThisHold := False,
             recenterSafeTriedThisHold := False\<rparr>)"

text \<open>
  The HID section of \<open>loop\<close>: map both axes, derive the hat, and call the \<open>Joystick\<close>
  object only for values that differ from the cached ones.
\<close>

definition loop_hid :: "state \<Rightarrow> real \<Rightarrow> real \<Rightarrow> u32 \<Rightarrow> state option" where
  "loop_hid s rollDelta pitchDelta grip24 =
     (let rollDeltaMech = rollDelta * ROLL_SENSOR_TO_MECH_SCALE
      in case mapDegToHID_Symmetric rollDeltaMech ROLL_HALF_DEG DEADZONE_ROLL_DEG of
           None \<Rightarrow> None
         | Some x \<Rightarrow>
            (case mapDegToHID_Asymmetric pitchDelta PITCH_PIQUER_DEG PITCH_CABRER_DEG
                    DEADZONE_PITCH_DEG of
               None \<Rightarrow> None
             | Some y \<Rightarrow>
                let hat = computeHatFromTrim grip24;
                    s1 = (if x \<noteq> lastX s
                          then s\<lparr>hid_calls := hid_calls s @ [SetXAxis x], lastX := x\<rparr> else s);
                    s2 = (if y \<noteq> lastY s1
                          then s1\<lparr>hid_calls := hid_calls s1 @ [SetYAxis y], lastY := y\<rparr> else s1);
                    s3 = (if grip24 \<noteq> lastGrip24 s2
                          then s2\<lparr>hid_calls := hid_calls s2 @ updateButtonsFromGrip grip24,
                                  lastGrip24 := grip24\<rparr>
                          else s2);
                    s4 = (if hat \<noteq> lastHat s3
                          then s3\<lparr>hid_calls := hid_calls s3 @ [SetHatSwitch 0 hat],
                                  lastHat := hat\<rparr>
                          else s3)
                in Some s4))"

text \<open>
  One pass of \<open>loop\<close>. \<open>None\<close> stands for a pass whose float-to-integer conversion is
  undefined; \<open>loop_defined\<close> below shows that no pass is.
\<close>

definition loop :: "state \<Rightarrow> cycle_input \<Rightarrow> state option" where
  "loop s inp =
     (let roll = readMT6835_burstAngle (rx_roll inp);
          pitch = readMT6835_burstAngle (rx_pitch inp);
          rollDeg0 = rollDegPrev s;
          pitchDeg0 = pitchDegPrev s;
          rollDeg = (if crc_ok roll then angle21ToDeg (angle21 roll) else rollDeg0);
          s1 = (if crc_ok roll then s\<lparr>rollDegPrev := rollDeg\<rparr> else s);
          pitchDeg = (if crc_ok pitch then angle21ToDeg (angle21 pitch) else pitchDeg0);
          s2 = (if crc_ok pitch then s1\<lparr>pitchDegPrev := pitchDeg\<rparr> else s1);
          rollCenterDeg = angle21ToDeg (rollCenter s2);
          pitchCenterDeg = angle21ToDeg (pitchCenter s2);
          rollDelta0 = wrapDiffDeg rollDeg rollCenterDeg;
          pitchDelta0 = wrapDiffDeg pitchDeg pitchCenterDeg;
          rollDelta = (if INVERT_ROLL then - rollDelta0 else rollDelta0);
          pitchDelta = (if INVERT_PITCH then - pitchDelta0 else pitchDelta0);
          grip24 = NOT (readGrip24 (rx_grip inp)) AND 0xFFFFFF;
          s3 = loop_recenter s2 roll pitch rollDelta pitchDelta grip24 (now_ms inp)
      in loop_hid s3 rollDelta pitchDelta grip24)"

text \<open>Consecutive passes of \<open>loop\<close>, one per element of the input list.\<close>

fun run_cycles :: "state \<Rightarrow> cycle_input list \<Rightarrow> state option" where
  "run_cycles s [] = Some s"
| "run_cycles s (inp # inps) =
     (case loop s inp of None \<Rightarrow> None | Some s1 \<Rightarrow> run_cycles s1 inps)"

subsection \<open>Notions used to state the properties\<close>

text \<open>The calibration: both centers, the validity flag and the persisted record.\<close>

definition calibration :: "state \<Rightarrow> u32 \<times> u32 \<times> bool \<times> eeprom" where
  "calibration s = (rollCenter s, pitchCenter s, centersValid s, eeprom_data s)"

text \<open>Whether the recenter combo is pressed in a pass, as \<open>loop\<close> decides it.\<close>

definition combo_held :: "cycle_input \<Rightarrow> bool" where
  "combo_held inp = recenterComboPressed (NOT (readGrip24 (rx_grip inp)) AND 0xFFFFFF)"

text \<open>The readings of the first eight bootstrap passes, per axis.\<close>

definition bootstrap_rolls :: "(nat \<Rightarrow> spi4 \<times> spi4) \<Rightarrow> MT6835_Result list" where
  "bootstrap_rolls rx = map (\<lambda>i. readMT6835_burstAngle (fst (rx i))) [0..<8]"

definition bootstrap_pitches :: "(nat \<Rightarrow> spi4 \<times> spi4) \<Rightarrow> MT6835_Result list" where
  "bootstrap_pitches rx = map (\<lambda>i. readMT6835_burstAngle (snd (rx i))) [0..<8]"

definition roll_reading :: "cycle_input \<Rightarrow> MT6835_Result" where
  "roll_reading inp = readMT6835_burstAngle (rx_roll inp)"

definition pitch_reading :: "cycle_input \<Rightarrow> MT6835_Result" where
  "pitch_reading inp = readMT6835_burstAngle (rx_pitch inp)"


text \<open>
  The values of the locals of one pass of \<open>loop\<close>, as functions of the state at the
  start of the pass and of its input: \<open>rollDeg\<close> and \<open>pitchDeg\<close> (the degrees values of
  the pass), \<open>rollDelta\<close> and \<open>pitchDelta\<close>, and the inverted grip frame.
\<close>

definition cycle_rollDeg :: "state \<Rightarrow> cycle_input \<Rightarrow> real" where
  "cycle_rollDeg s inp =
     (if crc_ok (roll_reading inp) then angle21ToDeg (angle21 (roll_reading inp))
      else rollDegPrev s)"

definition cycle_pitchDeg :: "state \<Rightarrow> cycle_input \<Rightarrow> real" where
  "cycle_pitchDeg s inp =
     (if crc_ok (pitch_reading inp) then angle21ToDeg (angle21 (pitch_reading inp))
      else pitchDegPrev s)"

definition cycle_rollDelta :: "state \<Rightarrow> cycle_input \<Rightarrow> real" where
  "cycle_rollDelta s inp =
     (let d = wrapDiffDeg (cycle_rollDeg s inp) (angle21ToDeg (rollCenter s))
      in if INVERT_ROLL then - d else d)"

definition cycle_pitchDelta :: "state \<Rightarrow> cycle_input \<Rightarrow> real" where
  "cycle_pitchDelta s inp =
     (let d = wrapDiffDeg (cycle_pitchDeg s inp) (angle21ToDeg (pitchCenter s))
      in if INVERT_PITCH then - d else d)"

definition cycle_grip24 :: "cycle_input \<Rightarrow> u32" where
  "cycle_grip24 inp = NOT (readGrip24 (rx_grip inp)) AND 0xFFFFFF"

text \<open>The state of a pass when it leaves the recenter section.\<close>

definition recenter_result :: "state \<Rightarrow> cycle_input \<Rightarrow> state" where
  "recenter_result s inp =
     loop_recenter
       (s\<lparr>rollDegPrev := cycle_rollDeg s inp, pitchDegPrev := cycle_pitchDeg s inp\<rparr>)
       (roll_reading inp) (pitch_reading inp)
       (cycle_rollDelta s inp) (cycle_pitchDelta s inp)
       (cycle_grip24 inp) (now_ms inp)"

text \<open>Two states that agree on everything but the HID cache and the HID call log.\<close>

definition same_control :: "state \<Rightarrow> state \<Rightarrow> bool" where
  "same_control s t \<longleftrightarrow>
     rollCenter s = rollCenter t \<and> pitchCenter s = pitchCenter t
     \<and> centersValid s = centersValid t \<and> eeprom_data s = eeprom_data t
     \<and> recenterArmed s = recenterArmed t \<and> recenterStartMs s = recenterStartMs t
     \<and> recenterDoneThisHold s = recenterDoneThisHold t
     \<and> recenterSafeTriedThisHold s = recenterSafeTriedThisHold t
     \<and> rollDegPrev s = rollDegPrev t \<and> pitchDegPrev s = pitchDegPrev t"

text \<open>
  The most recent valid sample of a run of readings, in the words of the bootstrap
  description: keep the readings with \<open>crc_ok\<close>, take the angle of the last one.
\<close>

definition last_valid :: "MT6835_Result list \<Rightarrow> u32 option" where
  "last_valid rs =
     (case filter crc_ok rs of [] \<Rightarrow> None | v # vs \<Rightarrow> Some (angle21 (last (v # vs))))"

text \<open>An EEPROM holding the given bytes from address 0 on, erased (0xFF) beyond them.\<close>

definition eeprom_of_list :: "u8 list \<Rightarrow> eeprom" where
  "eeprom_of_list bs = (\<lambda>a. if a < length bs then bs ! a else 0xFF)"

section \<open>Properties\<close>

subsection \<open>CRC-8 detects every single-bit error\<close>

lemma crc8_body_alt:
  "crc8_body d i c = push_bit 1 c XOR (if bit c 7 \<noteq> bit d i then 7 else 0)"
proof -
  have c7: "drop_bit 7 c AND 1 = (of_bool (bit c 7) :: u8)"
    by (simp add: bit_iff_odd_drop_bit mod_2_eq_odd and_one_eq)
  have b: "(ucast (drop_bit i d AND 1) :: u8) = of_bool (bit d i)"
    by (simp add: bit_iff_odd_drop_bit mod_2_eq_odd and_one_eq)
  show ?thesis
    unfolding crc8_body_def Let_def c7 b
    by (cases "bit c 7"; cases "bit d i") simp_all
qed

text \<open>The register update is linear over GF(2), and so is the whole loop.\<close>

lemma crc8_body_xor:
  "crc8_body (d XOR e) i (c1 XOR c2) = crc8_body d i c1 XOR crc8_body e i c2"
  unfolding crc8_body_alt
  by (cases "bit c1 7"; cases "bit c2 7"; cases "bit d i"; cases "bit e i")
     (simp_all add: bit_xor_iff ac_simps)

lemma crc8_loop_xor:
  "crc8_loop (d XOR e) n (c1 XOR c2) = crc8_loop d n c1 XOR crc8_loop e n c2"
  by (induction n arbitrary: c1 c2) (simp_all add: crc8_body_xor)

lemma mt_crc8_xor:
  "mt_crc8_24bits_msb (d XOR e) = mt_crc8_24bits_msb d XOR mt_crc8_24bits_msb e"
  using crc8_loop_xor[of d e 24 0 0] by (simp add: mt_crc8_24bits_msb_def)

text \<open>
  With a zero data bit the update multiplies the register by \<open>x\<close> modulo the
  polynomial; since the polynomial has a constant term, a nonzero register stays nonzero.
\<close>

lemma crc8_body_keeps_nonzero:
  assumes "\<not> bit d i" and "c \<noteq> 0"
  shows "crc8_body d i c \<noteq> 0"
proof (cases "bit c 7")
  case True
  have "odd (push_bit 1 c XOR (7::u8))"
    by (simp add: even_xor_iff)
  then have "push_bit 1 c XOR (7::u8) \<noteq> 0"
    by auto
  with True assms show ?thesis by (simp add: crc8_body_alt)
next
  case False
  have "push_bit 1 c \<noteq> 0"
  proof
    assume z: "push_bit 1 c = 0"
    have "c = 0"
    proof (rule bit_word_eqI)
      fix n assume n: "n < LENGTH(8)"
      show "bit c n = bit (0::u8) n"
      proof (cases "n = 7")
        case True with False show ?thesis by simp
      next
        case ne: False
        with n have lt: "Suc n < 8" by simp
        have "bit (push_bit 1 c) (Suc n) = bit c n"
          unfolding bit_push_bit_iff using lt by simp
        with z show ?thesis by simp
      qed
    qed
    with assms show False by simp
  qed
  with False assms show ?thesis by (simp add: crc8_body_alt)
qed

lemma crc8_loop_keeps_nonzero:
  "\<forall>k<n. \<not> bit d k \<Longrightarrow> c \<noteq> 0 \<Longrightarrow> crc8_loop d n c \<noteq> 0"
  by (induction n arbitrary: c) (simp_all add: crc8_body_keeps_nonzero)

lemma crc8_loop_single_bit:
  "i < n \<Longrightarrow> \<forall>k<n. bit d k \<longleftrightarrow> k = i \<Longrightarrow> crc8_loop d n 0 \<noteq> 0"
proof (induction n)
  case 0
  then show ?case by simp
next
  case (Suc n)
  show ?case
  proof (cases "i = n")
    case True
    with Suc.prems have "crc8_body d n 0 = 7" by (simp add: crc8_body_alt)
    moreover from Suc.prems True have "\<forall>k<n. \<not> bit d k" by auto
    ultimately show ?thesis using crc8_loop_keeps_nonzero[of n d 7] by simp
  next
    case False
    with Suc.prems have "i < n" by simp
    moreover from Suc.prems False have "crc8_body d n 0 = 0" by (simp add: crc8_body_alt)
    moreover from Suc.prems have "\<forall>k<n. bit d k \<longleftrightarrow> k = i" by simp
    ultimately show ?thesis using Suc.IH by simp
  qed
qed

lemma mt_crc8_single_bit: "i < 24 \<Longrightarrow> mt_crc8_24bits_msb (push_bit i 1) \<noteq> 0"
  unfolding mt_crc8_24bits_msb_def
  by (rule crc8_loop_single_bit) (auto simp: bit_simps)

lemma crc8_loop_zero: "crc8_loop 0 n 0 = 0"
  by (induction n) (simp_all add: crc8_body_alt)

lemma mt_crc8_zero: "mt_crc8_24bits_msb 0 = 0"
  by (simp add: mt_crc8_24bits_msb_def crc8_loop_zero)

text \<open>
  Claim C9. For every input word and every bit position \<open>i\<close> from 0 to 23, flipping
  bit \<open>i\<close> of the input changes the CRC-8 that \<open>mt_crc8_24bits_msb\<close> computes: no
  single-bit error goes undetected. (The function reads only bits 0 to 23 of its
  32-bit argument, so the statement covers every 24-bit input.)
\<close>

theorem crc8_single_bit_flip_detected:
  "i < 24 \<Longrightarrow> mt_crc8_24bits_msb (data24 XOR push_bit i 1) \<noteq> mt_crc8_24bits_msb data24"
proof
  assume i: "i < 24"
    and eq: "mt_crc8_24bits_msb (data24 XOR push_bit i 1) = mt_crc8_24bits_msb data24"
  have "mt_crc8_24bits_msb (push_bit i 1) =
      mt_crc8_24bits_msb data24 XOR mt_crc8_24bits_msb (data24 XOR push_bit i 1)"
    unfolding mt_crc8_xor by (simp flip: xor.assoc)
  with eq have "mt_crc8_24bits_msb (push_bit i 1) = 0"
    by simp
  with mt_crc8_single_bit i show False by simp
qed

theorem crc8_single_bit_flip_detected_witness:
  "(3::nat) < 24 \<and>
   mt_crc8_24bits_msb (0x123456 XOR push_bit 3 1) \<noteq> mt_crc8_24bits_msb 0x123456"
  using crc8_single_bit_flip_detected[of 3 "0x123456"] by simp

subsection \<open>The persisted record: save, then load\<close>

lemma and_mask21: "(r :: u32) \<le> 0x1FFFFF \<Longrightarrow> r AND 0x1FFFFF = r"
proof -
  assume "r \<le> 0x1FFFFF"
  then have "uint r < 2 ^ 21" by (simp add: word_le_def)
  then have "r AND mask 21 = r" by (simp add: mask_eq_iff)
  then show ?thesis by (simp add: mask_eq_decr_exp)
qed

lemma EEPROM_update_eq: "EEPROM_update mem a v = mem(a := v)"
  by (auto simp: EEPROM_update_def)

lemma bytes_join:
  "(ucast (ucast v :: u8) :: u32) OR push_bit 8 (ucast (ucast (drop_bit 8 v) :: u8))
     OR push_bit 16 (ucast (ucast (drop_bit 16 v) :: u8))
     OR push_bit 24 (ucast (ucast (drop_bit 24 v) :: u8)) = (v :: u32)"
proof (rule bit_word_eqI)
  fix n :: nat
  assume "n < LENGTH(32)"
  then consider "n < 8" | "8 \<le> n" "n < 16" | "16 \<le> n" "n < 24" | "24 \<le> n" "n < 32"
    by fastforce
  then show "bit ((ucast (ucast v :: u8) :: u32)
       OR push_bit 8 (ucast (ucast (drop_bit 8 v) :: u8))
       OR push_bit 16 (ucast (ucast (drop_bit 16 v) :: u8))
       OR push_bit 24 (ucast (ucast (drop_bit 24 v) :: u8))) n = bit v n"
    by cases (auto simp: bit_simps)
qed

lemma eepromReadU32_after_write: "eepromReadU32 (eepromWriteU32 mem a v) a = v"
  using bytes_join[of v]
  by (simp add: eepromReadU32_def eepromWriteU32_def EEPROM_update_eq EEPROM_read_def or.assoc)

lemma eepromReadU32_other_write:
  "a + 4 \<le> b \<or> b + 4 \<le> a \<Longrightarrow>
   eepromReadU32 (eepromWriteU32 mem a v) b = eepromReadU32 mem b"
  by (auto simp add: eepromReadU32_def eepromWriteU32_def EEPROM_update_eq EEPROM_read_def)

lemmas eeprom_layout =
  saveCentersToEEPROM_def EEPROM_ADDR_MAGIC_def EEPROM_ADDR_ROLL_def EEPROM_ADDR_PITCH_def
  eepromReadU32_after_write eepromReadU32_other_write

lemma load_after_save:
  "loadCentersFromEEPROM (saveCentersToEEPROM mem r p) r0 p0
     = (True, r AND 0x1FFFFF, p AND 0x1FFFFF)"
proof -
  let ?m = "saveCentersToEEPROM mem r p"
  have m: "eepromReadU32 ?m EEPROM_ADDR_MAGIC = EEPROM_MAGIC"
    by (simp add: eeprom_layout)
  have r: "eepromReadU32 ?m EEPROM_ADDR_ROLL = r AND 0x1FFFFF"
    by (simp add: eeprom_layout)
  have p: "eepromReadU32 ?m EEPROM_ADDR_PITCH = p AND 0x1FFFFF"
    by (simp add: eeprom_layout)
  show ?thesis
    unfolding loadCentersFromEEPROM_def Let_def m r p
    by (simp add: and.assoc)
qed

text \<open>
  Claim C7. For every pair \<open>r\<close>, \<open>p\<close> in \<open>[0, 2^21 - 1]\<close>, whatever the EEPROM held
  before and whatever the two reference arguments held, \<open>saveCentersToEEPROM r p\<close>
  followed by \<open>loadCentersFromEEPROM\<close> returns true and yields exactly \<open>r\<close> and \<open>p\<close>.
\<close>

theorem save_then_load_roundtrip:
  "r \<le> 0x1FFFFF \<Longrightarrow> p \<le> 0x1FFFFF \<Longrightarrow>
   loadCentersFromEEPROM (saveCentersToEEPROM mem r p) r0 p0 = (True, r, p)"
  by (simp add: load_after_save and_mask21)

theorem save_then_load_roundtrip_witness:
  "(0x12345 :: u32) \<le> 0x1FFFFF \<and> (0x1FFFFF :: u32) \<le> 0x1FFFFF \<and>
   loadCentersFromEEPROM (saveCentersToEEPROM (\<lambda>a. 0xFF) 0x12345 0x1FFFFF) 0 0
     = (True, 0x12345, 0x1FFFFF)"
  using save_then_load_roundtrip[of "0x12345" "0x1FFFFF" "\<lambda>a. 0xFF" 0 0] by simp


subsection \<open>Wrapped angle difference\<close>

lemma wrapDiffDeg_cases:
  assumes "0 \<le> a" "a < 360" "0 \<le> b" "b < 360"
  shows "wrapDiffDeg a b =
           (if a - b > 180 then a - b - 360 else if a - b < - 180 then a - b + 360 else a - b)"
  using assms unfolding wrapDiffDeg_def by simp

text \<open>
  Claim C2 as stated fails at its lower bound. Both loops of \<open>wrapDiffDeg\<close> test with a
  strict comparison, so a difference of exactly \<open>-180\<close> is returned as it is: with
  \<open>a = 0\<close> and \<open>b = 180\<close> (the angles of the encoder values 0 and \<open>2^20\<close>) the result is
  \<open>-180\<close>, which is not in \<open>(-180, 180]\<close>.
\<close>

theorem wrapDiffDeg_half_open_counterexample:
  "(0::real) \<le> 0 \<and> (0::real) < 360 \<and> (0::real) \<le> 180 \<and> (180::real) < 360 \<and>
   angle21ToDeg 0 = 0 \<and> angle21ToDeg 1048576 = 180 \<and>
   wrapDiffDeg 0 180 = - 180 \<and> \<not> (- 180 < wrapDiffDeg 0 180)"
  by (simp add: wrapDiffDeg_def angle21ToDeg_def MT_ANGLE_FULL_SCALE_def)

text \<open>
  Claim C2, amended. For all angles \<open>a\<close>, \<open>b\<close> in \<open>[0, 360)\<close>, \<open>wrapDiffDeg a b\<close> lies in
  the closed interval \<open>[-180, 180]\<close>, and \<open>wrapDiffDeg a a = 0\<close>.
\<close>

theorem wrapDiffDeg_range:
  assumes "0 \<le> a" "a < 360" "0 \<le> b" "b < 360"
  shows "- 180 \<le> wrapDiffDeg a b \<and> wrapDiffDeg a b \<le> 180 \<and> wrapDiffDeg a a = 0"
  using assms by (auto simp: wrapDiffDeg_def)

theorem wrapDiffDeg_range_witness:
  "(0::real) \<le> 10 \<and> (10::real) < 360 \<and> (0::real) \<le> 350 \<and> (350::real) < 360 \<and>
   - 180 \<le> wrapDiffDeg 10 350 \<and> wrapDiffDeg 10 350 \<le> 180 \<and> wrapDiffDeg 10 10 = 0"
  using wrapDiffDeg_range[of 10 350] by simp

text \<open>The lower bound is attained only by a difference of exactly \<open>-180\<close>.\<close>

lemma wrapDiffDeg_lower_bound_iff:
  assumes "0 \<le> a" "a < 360" "0 \<le> b" "b < 360"
  shows "wrapDiffDeg a b = - 180 \<longleftrightarrow> a - b = - 180"
  using assms by (auto simp: wrapDiffDeg_def)

subsection \<open>Axis mapping\<close>

lemma float_to_int32_nonneg:
  "0 \<le> x \<Longrightarrow> x \<le> 32767 \<Longrightarrow> float_to_int32 x = Some \<lfloor>x\<rfloor>"
proof -
  assume a: "0 \<le> x" "x \<le> 32767"
  then have "0 \<le> \<lfloor>x\<rfloor>" "\<lfloor>x\<rfloor> \<le> 32767" by (simp_all add: floor_le_iff)
  with a show ?thesis by (simp add: float_to_int32_def Let_def)
qed

lemma float_to_int32_neg:
  "x < 0 \<Longrightarrow> - 32767 \<le> x \<Longrightarrow> float_to_int32 x = Some \<lceil>x\<rceil>"
proof -
  assume a: "x < 0" "- 32767 \<le> x"
  then have "\<lceil>x\<rceil> \<le> 0" "- 32767 \<le> \<lceil>x\<rceil>" by (simp_all add: ceiling_le_iff le_ceiling_iff)
  with a show ?thesis by (simp add: float_to_int32_def Let_def)
qed

lemma scale_to_HID_nonneg:
  assumes "0 \<le> n" "n \<le> 1"
  shows "scale_to_HID n = Some \<lfloor>n * 32767\<rfloor>"
proof -
  have lo: "0 \<le> n * 32767" and hi: "n * 32767 \<le> 32767" using assms by simp_all
  then have k: "0 \<le> \<lfloor>n * 32767\<rfloor>" "\<lfloor>n * 32767\<rfloor> \<le> 32767" by (simp_all add: floor_le_iff)
  show ?thesis
    unfolding scale_to_HID_def float_to_int32_nonneg[OF lo hi]
    using k by (simp add: HID_MAX_def HID_MIN_def)
qed

lemma scale_to_HID_neg:
  assumes "0 < n" "n \<le> 1"
  shows "scale_to_HID (- n) = Some \<lceil>- n * 32767\<rceil>"
proof -
  have lo: "- n * 32767 < 0" and hi: "- 32767 \<le> - n * 32767" using assms by simp_all
  then have k: "\<lceil>- n * 32767\<rceil> \<le> 0" "- 32767 \<le> \<lceil>- n * 32767\<rceil>"
    by (simp_all add: ceiling_le_iff le_ceiling_iff)
  show ?thesis
    unfolding scale_to_HID_def float_to_int32_neg[OF lo hi]
    using k by (simp add: HID_MAX_def HID_MIN_def)
qed

text \<open>The two clamps of the delta, for a positive half range.\<close>

lemma sym_clamp:
  fixes delta :: real
  assumes "0 \<le> dz" "dz < hr"
  defines "d2 \<equiv> (if (if delta > hr then hr else delta) < - hr then - hr
                   else (if delta > hr then hr else delta))"
  shows "\<bar>d2\<bar> = min \<bar>delta\<bar> hr" and "d2 < 0 \<longleftrightarrow> delta < 0"
  using assms by (auto simp: d2_def)

lemma mapDegToHID_Symmetric_unfold:
  assumes "0 \<le> dz" "dz < hr"
  shows "mapDegToHID_Symmetric delta hr dz =
     (if min \<bar>delta\<bar> hr \<le> dz then Some 0
      else scale_to_HID (if delta < 0 then - ((min \<bar>delta\<bar> hr - dz) / (hr - dz))
                         else (min \<bar>delta\<bar> hr - dz) / (hr - dz)))"
proof -
  have dz: "(if (if dz < 0 then 0 else dz) > hr then hr else (if dz < 0 then 0 else dz)) = dz"
    using assms by simp
  have ne: "hr - dz \<noteq> 0" using assms by simp
  show ?thesis
    unfolding mapDegToHID_Symmetric_def Let_def dz sym_clamp[OF assms]
    using ne by simp
qed

lemma mapDegToHID_Symmetric_dead:
  assumes "0 \<le> dz" "dz < hr" "\<bar>delta\<bar> \<le> dz"
  shows "mapDegToHID_Symmetric delta hr dz = Some 0"
proof -
  have "min \<bar>delta\<bar> hr \<le> dz" using assms by simp
  then show ?thesis unfolding mapDegToHID_Symmetric_unfold[OF assms(1,2)] by simp
qed

lemma mapDegToHID_Symmetric_pos:
  assumes "0 \<le> dz" "dz < hr" "dz < delta"
  shows "mapDegToHID_Symmetric delta hr dz = Some \<lfloor>(min delta hr - dz) / (hr - dz) * 32767\<rfloor>"
proof -
  have m: "\<not> min \<bar>delta\<bar> hr \<le> dz" "\<not> delta < 0" "\<bar>delta\<bar> = delta" using assms by simp_all
  define n where "n = (min delta hr - dz) / (hr - dz)"
  have "0 \<le> n" "n \<le> 1" using assms by (simp_all add: n_def)
  then have "scale_to_HID n = Some \<lfloor>n * 32767\<rfloor>" by (rule scale_to_HID_nonneg)
  then show ?thesis
    unfolding mapDegToHID_Symmetric_unfold[OF assms(1,2)] n_def using m by simp
qed

lemma mapDegToHID_Symmetric_neg:
  assumes "0 \<le> dz" "dz < hr" "delta < - dz"
  shows "mapDegToHID_Symmetric delta hr dz
           = Some \<lceil>- ((min (- delta) hr - dz) / (hr - dz)) * 32767\<rceil>"
proof -
  have m: "\<not> min \<bar>delta\<bar> hr \<le> dz" "delta < 0" "\<bar>delta\<bar> = - delta" using assms by simp_all
  define n where "n = (min (- delta) hr - dz) / (hr - dz)"
  have "0 < n" "n \<le> 1" using assms by (simp_all add: n_def)
  then have "scale_to_HID (- n) = Some \<lceil>- n * 32767\<rceil>" by (rule scale_to_HID_neg)
  then show ?thesis
    unfolding mapDegToHID_Symmetric_unfold[OF assms(1,2)] n_def using m by simp
qed

lemma mapDegToHID_Symmetric_defined:
  assumes "0 \<le> dz" "dz < hr"
  shows "\<exists>v. mapDegToHID_Symmetric delta hr dz = Some v"
proof -
  consider "\<bar>delta\<bar> \<le> dz" | "dz < delta" | "delta < - dz" by linarith
  then show ?thesis
    using mapDegToHID_Symmetric_dead[OF assms] mapDegToHID_Symmetric_pos[OF assms]
      mapDegToHID_Symmetric_neg[OF assms]
    by cases blast+
qed






text \<open>At that input the scaled value is \<open>32767 / 2\<close> and the output is \<open>-16383\<close>.\<close>

lemma mapDegToHID_Symmetric_example:
  "mapDegToHID_Symmetric (- 8.25) 16.25 0.25 = Some (- 16383)"
  by (simp add: mapDegToHID_Symmetric_neg)

lemma mapDegToHID_Asymmetric_guard:
  "r < 0.001 \<Longrightarrow> mapDegToHID_Asymmetric delta r r dz = Some 0"
  unfolding mapDegToHID_Asymmetric_def Let_def by simp

text \<open>
  Claim C8 as stated fails for small ranges. \<open>mapDegToHID_Asymmetric\<close> returns 0 at once
  when the range of the side in use is below 0.001; \<open>mapDegToHID_Symmetric\<close> has no such
  guard. With \<open>r = 1/2048\<close>, \<open>deadzone = 0\<close> and \<open>delta = 1\<close> the asymmetric mapping gives
  0 and the symmetric one gives 32767.
\<close>

theorem mapDegToHID_Asymmetric_small_range_differs:
  "mapDegToHID_Asymmetric 1 (1 / 2048) (1 / 2048) 0 = Some 0 \<and>
   mapDegToHID_Symmetric 1 (1 / 2048) 0 = Some 32767"
  by (simp add: mapDegToHID_Asymmetric_guard mapDegToHID_Symmetric_pos)

text \<open>
  Claim C8, amended. For every delta and deadzone and every range \<open>r\<close> of at least
  0.001, the asymmetric mapping with \<open>rangePos = rangeNeg = r\<close> returns exactly what the
  symmetric mapping with \<open>halfRange = r\<close> returns; for \<open>r\<close> below 0.001 the asymmetric
  mapping returns 0.
\<close>

theorem mapDegToHID_Asymmetric_equal_ranges:
  "(0.001 \<le> r \<longrightarrow>
      mapDegToHID_Asymmetric delta r r dz = mapDegToHID_Symmetric delta r dz)
   \<and> (r < 0.001 \<longrightarrow> mapDegToHID_Asymmetric delta r r dz = Some 0)"
  unfolding mapDegToHID_Asymmetric_def mapDegToHID_Symmetric_def Let_def
  by simp

theorem mapDegToHID_Asymmetric_equal_ranges_witness:
  "(0.001 :: real) \<le> 8.25 \<and>
   mapDegToHID_Asymmetric (- 4.25) 8.25 8.25 0.25 = mapDegToHID_Symmetric (- 4.25) 8.25 0.25"
  using mapDegToHID_Asymmetric_equal_ranges[of "8.25" "- 4.25" "0.25"] by simp



subsection \<open>Sample frames\<close>

text \<open>
  Concrete peripheral answers used in the closed theorems below: a grip frame with the
  two combo buttons pressed (the raw bits are active low), an encoder answer with a
  matching CRC at angle 0, the same answer with a wrong CRC byte, and a valid answer at
  \<open>angle21 = 2^20\<close> (180 degrees).
\<close>


lemma combo_frame: "recenterComboPressed (NOT (readGrip24 (0x7D, 0xFF, 0xFF)) AND 0xFFFFFF)"
  by (simp add: recenterComboPressed_def readGrip24_def getBit24_def
      BIT_RECCE_EVENT_MARK_def BIT_FIRE_TRIGGER_1E_CRAN_def)

lemma read_zero_ok: "readMT6835_burstAngle (0, 0, 0, 0) = \<lparr>angle21 = 0, status3 = 0, crc_ok = True\<rparr>"
  by (simp add: readMT6835_burstAngle_def mt_crc8_zero MT6835_USE_CRC_def)

lemma read_zero_bad: "readMT6835_burstAngle (0, 0, 0, 1) = \<lparr>angle21 = 0, status3 = 0, crc_ok = False\<rparr>"
  by (simp add: readMT6835_burstAngle_def mt_crc8_zero MT6835_USE_CRC_def)

lemma crc8_loop_numeral:
  "crc8_loop d (numeral k) c = crc8_loop d (pred_numeral k) (crc8_body d (pred_numeral k) c)"
  by (simp add: numeral_eq_Suc)

lemma crc_half: "mt_crc8_24bits_msb 0x800000 = 0x0B"
  by (simp add: mt_crc8_24bits_msb_def crc8_body_alt crc8_loop_numeral)

lemma read_half_ok: "readMT6835_burstAngle (0x80, 0, 0, 0x0B) = \<lparr>angle21 = 0x100000, status3 = 0, crc_ok = True\<rparr>"
  by (simp add: readMT6835_burstAngle_def crc_half MT6835_USE_CRC_def)

lemmas sample_frames = roll_reading_def pitch_reading_def combo_held_def
  combo_frame read_zero_ok read_zero_bad read_half_ok


subsection \<open>One pass of the main loop\<close>

text \<open>
  With both ranges at least 0.001 the asymmetric mapping is the symmetric one with the
  range of the side the delta lies on.
\<close>

lemma asym_pos_side:
  assumes "0.001 \<le> rp" "0 < rn" "0 \<le> delta"
  shows "mapDegToHID_Asymmetric delta rp rn dz = mapDegToHID_Symmetric delta rp dz"
  using assms unfolding mapDegToHID_Asymmetric_def mapDegToHID_Symmetric_def Let_def
  by simp

lemma asym_neg_side:
  assumes "0 < rp" "0.001 \<le> rn" "delta < 0"
  shows "mapDegToHID_Asymmetric delta rp rn dz = mapDegToHID_Symmetric delta rn dz"
  using assms unfolding mapDegToHID_Asymmetric_def mapDegToHID_Symmetric_def Let_def
  by simp

lemma mapDegToHID_Asymmetric_defined:
  assumes "0.001 \<le> rp" "0.001 \<le> rn" "0 \<le> dz" "dz < rp" "dz < rn"
  shows "\<exists>v. mapDegToHID_Asymmetric delta rp rn dz = Some v"
proof (cases "0 \<le> delta")
  case True
  have "0 < rn" using assms by simp
  from asym_pos_side[OF assms(1) this True]
  show ?thesis using mapDegToHID_Symmetric_defined[OF assms(3,4)] by simp
next
  case False
  then have d: "delta < 0" by simp
  have "0 < rp" using assms by simp
  from asym_neg_side[OF this assms(2) d]
  show ?thesis using mapDegToHID_Symmetric_defined[OF assms(3,5)] by simp
qed

lemma loop_eq:
  "loop s inp = loop_hid (recenter_result s inp) (cycle_rollDelta s inp)
                  (cycle_pitchDelta s inp) (cycle_grip24 inp)"
  unfolding loop_def recenter_result_def cycle_rollDelta_def cycle_pitchDelta_def
    cycle_rollDeg_def cycle_pitchDeg_def cycle_grip24_def roll_reading_def pitch_reading_def
    Let_def
  by (cases "crc_ok (readMT6835_burstAngle (rx_roll inp))";
      cases "crc_ok (readMT6835_burstAngle (rx_pitch inp))") simp_all

lemma loop_hid_control:
  "loop_hid s rd pd g = Some s' \<Longrightarrow> same_control s' s"
  unfolding loop_hid_def same_control_def Let_def
  by (auto split: option.splits if_splits)

lemma loop_hid_defined: "\<exists>s'. loop_hid s rd pd g = Some s'"
proof -
  obtain x where x: "mapDegToHID_Symmetric (rd * ROLL_SENSOR_TO_MECH_SCALE) ROLL_HALF_DEG
                       DEADZONE_ROLL_DEG = Some x"
    using mapDegToHID_Symmetric_defined[of DEADZONE_ROLL_DEG ROLL_HALF_DEG]
    by (auto simp: DEADZONE_ROLL_DEG_def ROLL_HALF_DEG_def ROLL_TOTAL_DEG_def)
  obtain y where y: "mapDegToHID_Asymmetric pd PITCH_PIQUER_DEG PITCH_CABRER_DEG
                       DEADZONE_PITCH_DEG = Some y"
    using mapDegToHID_Asymmetric_defined[of PITCH_PIQUER_DEG PITCH_CABRER_DEG DEADZONE_PITCH_DEG]
    by (auto simp: DEADZONE_PITCH_DEG_def PITCH_PIQUER_DEG_def PITCH_CABRER_DEG_def
        PITCH_TOTAL_DEG_def)
  show ?thesis
    unfolding loop_hid_def Let_def x y by simp
qed

lemma loop_defined:
  "\<exists>s'. loop s inp = Some s' \<and> same_control s' (recenter_result s inp)"
proof -
  obtain s' where s': "loop s inp = Some s'"
    using loop_hid_defined unfolding loop_eq by blast
  then have "same_control s' (recenter_result s inp)"
    unfolding loop_eq by (rule loop_hid_control)
  with s' show ?thesis by blast
qed


lemma calibration_other_fields:
  "calibration (s\<lparr>recenterDoneThisHold := b\<rparr>) = calibration s"
  "calibration (s\<lparr>recenterSafeTriedThisHold := b\<rparr>) = calibration s"
  "calibration (s\<lparr>recenterArmed := b\<rparr>) = calibration s"
  "calibration (s\<lparr>recenterStartMs := t\<rparr>) = calibration s"
  "calibration (s\<lparr>rollDegPrev := x\<rparr>) = calibration s"
  "calibration (s\<lparr>pitchDegPrev := x\<rparr>) = calibration s"
  by (simp_all add: calibration_def)

lemma loop_recenter_needs_crc:
  "\<not> (crc_ok roll \<and> crc_ok pitch) \<Longrightarrow>
   calibration (loop_recenter s roll pitch rd pd g now) = calibration s"
  unfolding loop_recenter_def Let_def
  by (auto simp: calibration_other_fields)

lemma loop_recenter_degPrev:
  "rollDegPrev (loop_recenter s roll pitch rd pd g now) = rollDegPrev s"
  "pitchDegPrev (loop_recenter s roll pitch rd pd g now) = pitchDegPrev s"
  unfolding loop_recenter_def Let_def store_centers_def
  by simp_all

lemma loop_recenter_arm:
  "recenterComboPressed g \<Longrightarrow> \<not> recenterArmed s \<Longrightarrow>
   loop_recenter s roll pitch rd pd g now =
     s\<lparr>recenterArmed := True, recenterStartMs := now,
       recenterDoneThisHold := False, recenterSafeTriedThisHold := False\<rparr>"
  unfolding loop_recenter_def Let_def by simp

lemma hold_below_thresholds:
  "(h :: u32) < RECENTER_HOLD_MS \<Longrightarrow> \<not> RECENTER_FORCE_HOLD_MS \<le> h \<and> \<not> RECENTER_HOLD_MS \<le> h"
  unfolding RECENTER_HOLD_MS_def RECENTER_FORCE_HOLD_MS_def
  by (simp add: word_less_def word_le_def)

lemma loop_recenter_early:
  "recenterComboPressed g \<Longrightarrow> recenterArmed s \<Longrightarrow> now - recenterStartMs s < RECENTER_HOLD_MS \<Longrightarrow>
   loop_recenter s roll pitch rd pd g now = s"
  using hold_below_thresholds[of "now - recenterStartMs s"]
  unfolding loop_recenter_def Let_def by simp

lemma loop_recenter_force_bad_crc:
  "recenterComboPressed g \<Longrightarrow> recenterArmed s \<Longrightarrow> \<not> recenterDoneThisHold s \<Longrightarrow>
   RECENTER_FORCE_HOLD_MS \<le> now - recenterStartMs s \<Longrightarrow> \<not> (crc_ok roll \<and> crc_ok pitch) \<Longrightarrow>
   loop_recenter s roll pitch rd pd g now = s\<lparr>recenterDoneThisHold := True\<rparr>"
  unfolding loop_recenter_def Let_def by auto

lemma loop_recenter_done:
  "recenterComboPressed g \<Longrightarrow> recenterArmed s \<Longrightarrow> recenterDoneThisHold s \<Longrightarrow>
   loop_recenter s roll pitch rd pd g now = s"
  unfolding loop_recenter_def Let_def by simp


lemma calibration_same_control:
  "same_control s' t \<Longrightarrow> calibration s' = calibration t"
  by (simp add: same_control_def calibration_def)

lemma calibration_degPrev:
  "calibration (s\<lparr>rollDegPrev := x, pitchDegPrev := y\<rparr>) = calibration s"
  by (simp add: calibration_def)

text \<open>
  Claim C3. In every pass of \<open>loop\<close>, from every state and on every branch of the
  recenter logic, the calibration (both centers, \<open>centersValid\<close> and the EEPROM
  contents) stays as it was unless both the roll and the pitch reading of that pass have
  \<open>crc_ok\<close>.
\<close>

theorem loop_commit_requires_crc:
  "\<not> (crc_ok (roll_reading inp) \<and> crc_ok (pitch_reading inp)) \<Longrightarrow>
   \<exists>s'. loop s inp = Some s' \<and> calibration s' = calibration s"
proof -
  assume bad: "\<not> (crc_ok (roll_reading inp) \<and> crc_ok (pitch_reading inp))"
  obtain s' where s': "loop s inp = Some s'" "same_control s' (recenter_result s inp)"
    using loop_defined by blast
  have "calibration (recenter_result s inp) = calibration s"
    unfolding recenter_result_def loop_recenter_needs_crc[OF bad] by (rule calibration_degPrev)
  with s' show ?thesis by (simp add: calibration_same_control)
qed

theorem loop_commit_requires_crc_witness:
  "\<not> (crc_ok (roll_reading \<lparr>rx_roll = (0, 0, 0, 1), rx_pitch = (0x80, 0, 0, 0x0B),
                             rx_grip = (0x7D, 0xFF, 0xFF), now_ms = 6000\<rparr>)
       \<and> crc_ok (pitch_reading \<lparr>rx_roll = (0, 0, 0, 1), rx_pitch = (0x80, 0, 0, 0x0B),
                             rx_grip = (0x7D, 0xFF, 0xFF), now_ms = 6000\<rparr>))
   \<and> (\<exists>s'. loop ((power_on (\<lambda>a. 0xFF))\<lparr>recenterArmed := True\<rparr>)
               \<lparr>rx_roll = (0, 0, 0, 1), rx_pitch = (0x80, 0, 0, 0x0B),
                rx_grip = (0x7D, 0xFF, 0xFF), now_ms = 6000\<rparr> = Some s'
          \<and> calibration s' = calibration ((power_on (\<lambda>a. 0xFF))\<lparr>recenterArmed := True\<rparr>))"
  using loop_commit_requires_crc[of
      "\<lparr>rx_roll = (0, 0, 0, 1), rx_pitch = (0x80, 0, 0, 0x0B),
        rx_grip = (0x7D, 0xFF, 0xFF), now_ms = 6000\<rparr>"
      "(power_on (\<lambda>a. 0xFF))\<lparr>recenterArmed := True\<rparr>"]
  by (simp add: sample_frames)

text \<open>One pass with the combo pressed, before and after arming.\<close>

lemma loop_arm:
  assumes "combo_held inp" "\<not> recenterArmed s"
  shows "\<exists>s'. loop s inp = Some s' \<and> calibration s' = calibration s
              \<and> recenterArmed s' \<and> recenterStartMs s' = now_ms inp"
proof -
  obtain s' where s': "loop s inp = Some s'" "same_control s' (recenter_result s inp)"
    using loop_defined by blast
  have g: "recenterComboPressed (cycle_grip24 inp)"
    using assms(1) by (simp add: combo_held_def cycle_grip24_def)
  have r: "recenter_result s inp =
      s\<lparr>rollDegPrev := cycle_rollDeg s inp, pitchDegPrev := cycle_pitchDeg s inp,
        recenterArmed := True, recenterStartMs := now_ms inp,
        recenterDoneThisHold := False, recenterSafeTriedThisHold := False\<rparr>"
    unfolding recenter_result_def using assms(2) by (subst loop_recenter_arm[OF g]) simp_all
  show ?thesis
    using s' unfolding r by (simp add: same_control_def calibration_def)
qed

lemma loop_early:
  assumes "combo_held inp" "recenterArmed s"
    "now_ms inp - recenterStartMs s < RECENTER_HOLD_MS"
  shows "\<exists>s'. loop s inp = Some s' \<and> calibration s' = calibration s
              \<and> recenterArmed s' \<and> recenterStartMs s' = recenterStartMs s"
proof -
  obtain s' where s': "loop s inp = Some s'" "same_control s' (recenter_result s inp)"
    using loop_defined by blast
  have g: "recenterComboPressed (cycle_grip24 inp)"
    using assms(1) by (simp add: combo_held_def cycle_grip24_def)
  have r: "recenter_result s inp =
      s\<lparr>rollDegPrev := cycle_rollDeg s inp, pitchDegPrev := cycle_pitchDeg s inp\<rparr>"
    unfolding recenter_result_def using assms(2,3) by (subst loop_recenter_early[OF g]) simp_all
  show ?thesis
    using s' assms(2) unfolding r by (simp add: same_control_def calibration_def)
qed

lemma run_cycles_early:
  assumes "recenterArmed s"
    and "\<forall>i\<in>set inps. combo_held i \<and> now_ms i - recenterStartMs s < RECENTER_HOLD_MS"
  shows "\<exists>s'. run_cycles s inps = Some s' \<and> calibration s' = calibration s"
  using assms
proof (induction inps arbitrary: s)
  case Nil
  then show ?case by simp
next
  case (Cons i inps)
  from Cons.prems have i: "combo_held i" "now_ms i - recenterStartMs s < RECENTER_HOLD_MS"
    by simp_all
  from loop_early[OF i(1) Cons.prems(1) i(2)]
  obtain s1 where s1: "loop s i = Some s1" "calibration s1 = calibration s"
    "recenterArmed s1" "recenterStartMs s1 = recenterStartMs s" by blast
  from Cons.prems(2) s1(4)
  have "\<forall>j\<in>set inps. combo_held j \<and> now_ms j - recenterStartMs s1 < RECENTER_HOLD_MS"
    by simp
  from Cons.IH[OF s1(3) this]
  obtain s' where "run_cycles s1 inps = Some s'" "calibration s' = calibration s1" by blast
  with s1 show ?case by simp
qed

text \<open>
  Claim C4. Start from any state that is not armed and let the combo be pressed in
  every pass from \<open>i0\<close> on, the pass that arms. As long as every later pass sees
  less than \<open>RECENTER_HOLD_MS\<close> (2000 ms) elapsed since arming, computed as \<open>loop\<close>
  does by unsigned subtraction, the calibration after the passes is the one before
  them. The list of passes is arbitrary, so this holds after each pass of the hold.
\<close>

theorem short_hold_keeps_calibration:
  assumes "\<not> recenterArmed s" and "combo_held i0"
    and "\<forall>i\<in>set inps. combo_held i \<and> now_ms i - now_ms i0 < RECENTER_HOLD_MS"
  shows "\<exists>s'. run_cycles s (i0 # inps) = Some s' \<and> calibration s' = calibration s"
proof -
  from loop_arm[OF assms(2,1)]
  obtain s1 where s1: "loop s i0 = Some s1" "calibration s1 = calibration s"
    "recenterArmed s1" "recenterStartMs s1 = now_ms i0" by blast
  from assms(3) s1(4)
  have "\<forall>j\<in>set inps. combo_held j \<and> now_ms j - recenterStartMs s1 < RECENTER_HOLD_MS"
    by simp
  from run_cycles_early[OF s1(3) this]
  obtain s' where "run_cycles s1 inps = Some s'" "calibration s' = calibration s1" by blast
  with s1 show ?thesis by simp
qed

theorem short_hold_keeps_calibration_witness:
  "\<not> recenterArmed (power_on (\<lambda>a. 0xFF))
   \<and> combo_held \<lparr>rx_roll = (0, 0, 0, 0), rx_pitch = (0x80, 0, 0, 0x0B),
                  rx_grip = (0x7D, 0xFF, 0xFF), now_ms = 0xFFFFFF00\<rparr>
   \<and> combo_held \<lparr>rx_roll = (0, 0, 0, 0), rx_pitch = (0x80, 0, 0, 0x0B),
                  rx_grip = (0x7D, 0xFF, 0xFF), now_ms = 0x00000100\<rparr>
   \<and> (0x00000100 :: u32) - 0xFFFFFF00 < RECENTER_HOLD_MS
   \<and> combo_held \<lparr>rx_roll = (0, 0, 0, 0), rx_pitch = (0x80, 0, 0, 0x0B),
                  rx_grip = (0x7D, 0xFF, 0xFF), now_ms = 0x000006CF\<rparr>
   \<and> (0x000006CF :: u32) - 0xFFFFFF00 < RECENTER_HOLD_MS
   \<and> (\<exists>s'. run_cycles (power_on (\<lambda>a. 0xFF))
               [\<lparr>rx_roll = (0, 0, 0, 0), rx_pitch = (0x80, 0, 0, 0x0B),
                 rx_grip = (0x7D, 0xFF, 0xFF), now_ms = 0xFFFFFF00\<rparr>,
                \<lparr>rx_roll = (0, 0, 0, 0), rx_pitch = (0x80, 0, 0, 0x0B),
                 rx_grip = (0x7D, 0xFF, 0xFF), now_ms = 0x00000100\<rparr>,
                \<lparr>rx_roll = (0, 0, 0, 0), rx_pitch = (0x80, 0, 0, 0x0B),
                 rx_grip = (0x7D, 0xFF, 0xFF), now_ms = 0x000006CF\<rparr>] = Some s'
          \<and> calibration s' = calibration (power_on (\<lambda>a. 0xFF)))"
  using short_hold_keeps_calibration[of "power_on (\<lambda>a. 0xFF)"
      "\<lparr>rx_roll = (0, 0, 0, 0), rx_pitch = (0x80, 0, 0, 0x0B),
        rx_grip = (0x7D, 0xFF, 0xFF), now_ms = 0xFFFFFF00\<rparr>"
      "[\<lparr>rx_roll = (0, 0, 0, 0), rx_pitch = (0x80, 0, 0, 0x0B),
         rx_grip = (0x7D, 0xFF, 0xFF), now_ms = 0x00000100\<rparr>,
        \<lparr>rx_roll = (0, 0, 0, 0), rx_pitch = (0x80, 0, 0, 0x0B),
         rx_grip = (0x7D, 0xFF, 0xFF), now_ms = 0x000006CF\<rparr>]"]
  by (simp add: sample_frames power_on_def RECENTER_HOLD_MS_def)

lemma loop_force_bad_crc:
  assumes "combo_held inp" "recenterArmed s" "\<not> recenterDoneThisHold s"
    "RECENTER_FORCE_HOLD_MS \<le> now_ms inp - recenterStartMs s"
    "\<not> (crc_ok (roll_reading inp) \<and> crc_ok (pitch_reading inp))"
  shows "\<exists>s'. loop s inp = Some s' \<and> calibration s' = calibration s
              \<and> recenterArmed s' \<and> recenterDoneThisHold s'"
proof -
  obtain s' where s': "loop s inp = Some s'" "same_control s' (recenter_result s inp)"
    using loop_defined by blast
  have g: "recenterComboPressed (cycle_grip24 inp)"
    using assms(1) by (simp add: combo_held_def cycle_grip24_def)
  have r: "recenter_result s inp =
      s\<lparr>rollDegPrev := cycle_rollDeg s inp, pitchDegPrev := cycle_pitchDeg s inp,
        recenterDoneThisHold := True\<rparr>"
    unfolding recenter_result_def using assms(2,3,4)
    by (subst loop_recenter_force_bad_crc[OF g _ _ _ assms(5)]) simp_all
  show ?thesis
    using s' assms(2) unfolding r by (simp add: same_control_def calibration_def)
qed

lemma loop_done:
  assumes "combo_held inp" "recenterArmed s" "recenterDoneThisHold s"
  shows "\<exists>s'. loop s inp = Some s' \<and> calibration s' = calibration s
              \<and> recenterArmed s' \<and> recenterDoneThisHold s'"
proof -
  obtain s' where s': "loop s inp = Some s'" "same_control s' (recenter_result s inp)"
    using loop_defined by blast
  have g: "recenterComboPressed (cycle_grip24 inp)"
    using assms(1) by (simp add: combo_held_def cycle_grip24_def)
  have r: "recenter_result s inp =
      s\<lparr>rollDegPrev := cycle_rollDeg s inp, pitchDegPrev := cycle_pitchDeg s inp\<rparr>"
    unfolding recenter_result_def using assms(2,3) by (subst loop_recenter_done[OF g]) simp_all
  show ?thesis
    using s' assms(2,3) unfolding r by (simp add: same_control_def calibration_def)
qed

lemma run_cycles_done:
  assumes "recenterArmed s" "recenterDoneThisHold s" "\<forall>i\<in>set inps. combo_held i"
  shows "\<exists>s'. run_cycles s inps = Some s' \<and> calibration s' = calibration s
              \<and> recenterDoneThisHold s'"
  using assms
proof (induction inps arbitrary: s)
  case Nil
  then show ?case by simp
next
  case (Cons i inps)
  from Cons.prems have i: "combo_held i" by simp
  from loop_done[OF i Cons.prems(1,2)]
  obtain s1 where s1: "loop s i = Some s1" "calibration s1 = calibration s"
    "recenterArmed s1" "recenterDoneThisHold s1" by blast
  from Cons.prems(3) have "\<forall>j\<in>set inps. combo_held j" by simp
  from Cons.IH[OF s1(3,4) this]
  obtain s' where "run_cycles s1 inps = Some s'" "calibration s' = calibration s1"
    "recenterDoneThisHold s'" by blast
  with s1 show ?case by simp
qed

text \<open>
  Claim C10. Let the combo be held, the session armed and not done, and let a pass
  \<open>i0\<close> see at least \<open>RECENTER_FORCE_HOLD_MS\<close> (6000 ms) elapsed while at least one
  reading fails its CRC. Then that pass marks the session done without changing the
  calibration, and however many further passes follow with the combo still held,
  whatever their readings and times, the calibration stays unchanged.
\<close>

theorem forced_attempt_with_bad_crc_ends_hold:
  assumes "combo_held i0" "recenterArmed s" "\<not> recenterDoneThisHold s"
    and "RECENTER_FORCE_HOLD_MS \<le> now_ms i0 - recenterStartMs s"
    and "\<not> (crc_ok (roll_reading i0) \<and> crc_ok (pitch_reading i0))"
    and "\<forall>i\<in>set inps. combo_held i"
  shows "\<exists>s1 s'. loop s i0 = Some s1 \<and> recenterDoneThisHold s1
                 \<and> calibration s1 = calibration s
                 \<and> run_cycles s1 inps = Some s' \<and> calibration s' = calibration s
                 \<and> recenterDoneThisHold s'"
proof -
  from loop_force_bad_crc[OF assms(1-5)]
  obtain s1 where s1: "loop s i0 = Some s1" "calibration s1 = calibration s"
    "recenterArmed s1" "recenterDoneThisHold s1" by blast
  from run_cycles_done[OF s1(3,4) assms(6)]
  obtain s' where "run_cycles s1 inps = Some s'" "calibration s' = calibration s1"
    "recenterDoneThisHold s'" by blast
  with s1 show ?thesis by simp
qed

theorem forced_attempt_with_bad_crc_ends_hold_witness:
  "combo_held \<lparr>rx_roll = (0, 0, 0, 1), rx_pitch = (0x80, 0, 0, 0x0B),
                rx_grip = (0x7D, 0xFF, 0xFF), now_ms = 6000\<rparr>
   \<and> recenterArmed ((power_on (\<lambda>a. 0xFF))\<lparr>recenterArmed := True\<rparr>)
   \<and> \<not> recenterDoneThisHold ((power_on (\<lambda>a. 0xFF))\<lparr>recenterArmed := True\<rparr>)
   \<and> RECENTER_FORCE_HOLD_MS
        \<le> 6000 - recenterStartMs ((power_on (\<lambda>a. 0xFF))\<lparr>recenterArmed := True\<rparr>)
   \<and> \<not> (crc_ok (roll_reading \<lparr>rx_roll = (0, 0, 0, 1), rx_pitch = (0x80, 0, 0, 0x0B),
                                rx_grip = (0x7D, 0xFF, 0xFF), now_ms = 6000\<rparr>)
          \<and> crc_ok (pitch_reading \<lparr>rx_roll = (0, 0, 0, 1), rx_pitch = (0x80, 0, 0, 0x0B),
                                rx_grip = (0x7D, 0xFF, 0xFF), now_ms = 6000\<rparr>))
   \<and> combo_held \<lparr>rx_roll = (0, 0, 0, 0), rx_pitch = (0x80, 0, 0, 0x0B),
                  rx_grip = (0x7D, 0xFF, 0xFF), now_ms = 6001\<rparr>
   \<and> combo_held \<lparr>rx_roll = (0, 0, 0, 0), rx_pitch = (0x80, 0, 0, 0x0B),
                  rx_grip = (0x7D, 0xFF, 0xFF), now_ms = 600000\<rparr>
   \<and> (\<exists>s1 s'. loop ((power_on (\<lambda>a. 0xFF))\<lparr>recenterArmed := True\<rparr>)
                  \<lparr>rx_roll = (0, 0, 0, 1), rx_pitch = (0x80, 0, 0, 0x0B),
                   rx_grip = (0x7D, 0xFF, 0xFF), now_ms = 6000\<rparr> = Some s1
          \<and> recenterDoneThisHold s1
          \<and> calibration s1 = calibration ((power_on (\<lambda>a. 0xFF))\<lparr>recenterArmed := True\<rparr>)
          \<and> run_cycles s1
                [\<lparr>rx_roll = (0, 0, 0, 0), rx_pitch = (0x80, 0, 0, 0x0B),
                  rx_grip = (0x7D, 0xFF, 0xFF), now_ms = 6001\<rparr>,
                 \<lparr>rx_roll = (0, 0, 0, 0), rx_pitch = (0x80, 0, 0, 0x0B),
                  rx_grip = (0x7D, 0xFF, 0xFF), now_ms = 600000\<rparr>] = Some s'
          \<and> calibration s' = calibration ((power_on (\<lambda>a. 0xFF))\<lparr>recenterArmed := True\<rparr>)
          \<and> recenterDoneThisHold s')"
  using forced_attempt_with_bad_crc_ends_hold[of
      "\<lparr>rx_roll = (0, 0, 0, 1), rx_pitch = (0x80, 0, 0, 0x0B),
        rx_grip = (0x7D, 0xFF, 0xFF), now_ms = 6000\<rparr>"
      "(power_on (\<lambda>a. 0xFF))\<lparr>recenterArmed := True\<rparr>"
      "[\<lparr>rx_roll = (0, 0, 0, 0), rx_pitch = (0x80, 0, 0, 0x0B),
         rx_grip = (0x7D, 0xFF, 0xFF), now_ms = 6001\<rparr>,
        \<lparr>rx_roll = (0, 0, 0, 0), rx_pitch = (0x80, 0, 0, 0x0B),
         rx_grip = (0x7D, 0xFF, 0xFF), now_ms = 600000\<rparr>]"]
  by (simp add: sample_frames power_on_def RECENTER_FORCE_HOLD_MS_def)

text \<open>
  The value kept in \<open>rollDegPrev\<close> and \<open>pitchDegPrev\<close> after a pass is the degrees value
  of that pass, so at the start of a pass the two hold the values of the pass before.
\<close>

lemma loop_keeps_cycle_degrees:
  "\<exists>s'. loop s inp = Some s'
     \<and> rollDegPrev s' = cycle_rollDeg s inp \<and> pitchDegPrev s' = cycle_pitchDeg s inp"
proof -
  obtain s' where s': "loop s inp = Some s'" "same_control s' (recenter_result s inp)"
    using loop_defined by blast
  have "rollDegPrev s' = cycle_rollDeg s inp" "pitchDegPrev s' = cycle_pitchDeg s inp"
    using s'(2) by (simp_all add: same_control_def recenter_result_def loop_recenter_degPrev)
  with s'(1) show ?thesis by simp
qed





subsection \<open>Bootstrap of the calibration at startup\<close>

lemma last_valid_Cons:
  "last_valid (r # rs) =
     (case last_valid rs of Some a \<Rightarrow> Some a
      | None \<Rightarrow> if crc_ok r then Some (angle21 r) else None)"
  by (cases "filter crc_ok rs") (simp_all add: last_valid_def)

lemma last_valid_Nil: "last_valid [] = None"
  by (simp add: last_valid_def)

lemma last_valid_none: "\<forall>r\<in>set rs. \<not> crc_ok r \<Longrightarrow> last_valid rs = None"
proof -
  assume "\<forall>r\<in>set rs. \<not> crc_ok r"
  then have "filter crc_ok rs = []" by (simp add: filter_empty_conv)
  then show ?thesis by (simp add: last_valid_def)
qed

text \<open>What the eight passes of the bootstrap loop leave in the two centers.\<close>

lemma bootstrap_loop_spec:
  "i \<le> 8 \<Longrightarrow>
   bootstrap_loop rx i s =
     s\<lparr>rollCenter :=
          (case last_valid (map (\<lambda>j. readMT6835_burstAngle (fst (rx j))) [i..<8]) of
             Some a \<Rightarrow> a | None \<Rightarrow> rollCenter s),
       pitchCenter :=
          (case last_valid (map (\<lambda>j. readMT6835_burstAngle (snd (rx j))) [i..<8]) of
             Some a \<Rightarrow> a | None \<Rightarrow> pitchCenter s)\<rparr>"
proof (induction rx i s rule: bootstrap_loop.induct)
  case (1 rx i s)
  show ?case
  proof (cases "i < 8")
    case False
    with "1.prems" have "i = 8" by simp
    then show ?thesis by (simp add: last_valid_Nil)
  next
    case True
    then have upt: "[i..<8] = i # [i + 1..<8]" by (simp add: upt_conv_Cons)
    have le: "i + 1 \<le> 8" using True by simp
    note IH = "1.IH"[OF True refl refl refl refl le]
    show ?thesis
      apply (subst bootstrap_loop.simps)
      apply (simp only: True if_True Let_def)
      apply (subst IH)
      apply (simp add: upt last_valid_Cons split: option.splits)
      done
  qed
qed

lemma load_magic_mismatch:
  "eepromReadU32 mem EEPROM_ADDR_MAGIC \<noteq> EEPROM_MAGIC \<Longrightarrow>
   loadCentersFromEEPROM mem r p = (False, r, p)"
  by (simp add: loadCentersFromEEPROM_def)

lemma sketch_setup_invalid:
  assumes "\<not> fst (loadCentersFromEEPROM mem 0 0)"
  shows "sketch_setup mem rx =
     (let r0 = fst (snd (loadCentersFromEEPROM mem 0 0));
          p0 = snd (snd (loadCentersFromEEPROM mem 0 0));
          rc = (case last_valid (bootstrap_rolls rx) of Some a \<Rightarrow> a | None \<Rightarrow> r0);
          pc = (case last_valid (bootstrap_pitches rx) of Some a \<Rightarrow> a | None \<Rightarrow> p0)
      in (power_on mem)\<lparr>rollCenter := rc, pitchCenter := pc,
            eeprom_data := saveCentersToEEPROM mem rc pc, centersValid := True\<rparr>)"
proof -
  obtain ok r0 p0 where l: "loadCentersFromEEPROM mem 0 0 = (ok, r0, p0)"
    by (cases "loadCentersFromEEPROM mem 0 0") auto
  with assms have ok: "\<not> ok" by simp
  have p: "rollCenter (power_on mem) = 0" "pitchCenter (power_on mem) = 0"
    "eeprom_data (power_on mem) = mem"
    by (simp_all add: power_on_def)
  have b: "bootstrap_loop rx 0 s = s\<lparr>rollCenter :=
          (case last_valid (bootstrap_rolls rx) of
             Some a \<Rightarrow> a | None \<Rightarrow> rollCenter s),
       pitchCenter :=
          (case last_valid (bootstrap_pitches rx) of
             Some a \<Rightarrow> a | None \<Rightarrow> pitchCenter s)\<rparr>" for s
    unfolding bootstrap_rolls_def bootstrap_pitches_def
    by (rule bootstrap_loop_spec) simp
  show ?thesis
    unfolding sketch_setup_def Let_def p l b
    using ok by (simp add: p split: option.splits)
qed

text \<open>
  What the bootstrap does whenever \<open>loadCentersFromEEPROM\<close> reports an invalid record:
  the calibration is marked valid, an axis with a valid sample gets the most recent
  one, the centers are persisted at once and the persisted record loads as valid. An
  axis without a valid sample keeps 0 when the record was rejected for its magic word.
\<close>

lemma bootstrap_on_invalid_record:
  assumes "\<not> fst (loadCentersFromEEPROM mem 0 0)"
  shows "centersValid (sketch_setup mem rx)
    \<and> (\<forall>a. last_valid (bootstrap_rolls rx) = Some a \<longrightarrow> rollCenter (sketch_setup mem rx) = a)
    \<and> (\<forall>a. last_valid (bootstrap_pitches rx) = Some a \<longrightarrow> pitchCenter (sketch_setup mem rx) = a)
    \<and> (eepromReadU32 mem EEPROM_ADDR_MAGIC \<noteq> EEPROM_MAGIC
          \<and> last_valid (bootstrap_rolls rx) = None \<longrightarrow> rollCenter (sketch_setup mem rx) = 0)
    \<and> (eepromReadU32 mem EEPROM_ADDR_MAGIC \<noteq> EEPROM_MAGIC
          \<and> last_valid (bootstrap_pitches rx) = None \<longrightarrow> pitchCenter (sketch_setup mem rx) = 0)
    \<and> eeprom_data (sketch_setup mem rx)
          = saveCentersToEEPROM mem (rollCenter (sketch_setup mem rx))
              (pitchCenter (sketch_setup mem rx))
    \<and> fst (loadCentersFromEEPROM (eeprom_data (sketch_setup mem rx)) r1 p1)"
  unfolding sketch_setup_invalid[OF assms] Let_def
  by (auto simp: load_magic_mismatch load_after_save)

lemma nth_eeprom_of_list:
  "eeprom_of_list bs a = (if a < length bs then bs ! a else 0xFF)"
  by (simp add: eeprom_of_list_def)

lemma upt_0_8: "[0..<8] = [0, 1, 2, 3, 4, 5, 6, 7::nat]"
  by (simp add: upt_rec)

lemma one_good_roll:
  "last_valid (bootstrap_rolls
     (\<lambda>i. (if i = 3 then (0x80, 0, 0, 0x0B) else (0, 0, 0, 1), (0, 0, 0, 1)))) = Some 0x100000"
  by (simp add: bootstrap_rolls_def upt_0_8 last_valid_def read_zero_bad read_half_ok)

lemma no_good_pitch:
  "last_valid (bootstrap_pitches
     (\<lambda>i. (if i = 3 then (0x80, 0, 0, 0x0B) else (0, 0, 0, 1), (0, 0, 0, 1)))) = None"
  by (rule last_valid_none) (simp add: bootstrap_pitches_def read_zero_bad)

lemma erased_magic: "eepromReadU32 (eeprom_of_list []) EEPROM_ADDR_MAGIC \<noteq> EEPROM_MAGIC"
  by (simp add: eepromReadU32_def EEPROM_read_def nth_eeprom_of_list EEPROM_MAGIC_def)

lemma bootstrap_on_invalid_record_example:
  "\<not> fst (loadCentersFromEEPROM (eeprom_of_list []) 0 0)
   \<and> centersValid (sketch_setup (eeprom_of_list [])
         (\<lambda>i. (if i = 3 then (0x80, 0, 0, 0x0B) else (0, 0, 0, 1), (0, 0, 0, 1))))
   \<and> rollCenter (sketch_setup (eeprom_of_list [])
         (\<lambda>i. (if i = 3 then (0x80, 0, 0, 0x0B) else (0, 0, 0, 1), (0, 0, 0, 1)))) = 0x100000
   \<and> pitchCenter (sketch_setup (eeprom_of_list [])
         (\<lambda>i. (if i = 3 then (0x80, 0, 0, 0x0B) else (0, 0, 0, 1), (0, 0, 0, 1)))) = 0
   \<and> eeprom_data (sketch_setup (eeprom_of_list [])
         (\<lambda>i. (if i = 3 then (0x80, 0, 0, 0x0B) else (0, 0, 0, 1), (0, 0, 0, 1))))
       = saveCentersToEEPROM (eeprom_of_list []) 0x100000 0
   \<and> fst (loadCentersFromEEPROM (eeprom_data (sketch_setup (eeprom_of_list [])
         (\<lambda>i. (if i = 3 then (0x80, 0, 0, 0x0B) else (0, 0, 0, 1), (0, 0, 0, 1))))) 0 0)"
proof -
  have inv: "\<not> fst (loadCentersFromEEPROM (eeprom_of_list []) 0 0)"
    by (simp add: load_magic_mismatch erased_magic)
  from bootstrap_on_invalid_record[OF inv,
      of "\<lambda>i. (if i = 3 then (0x80, 0, 0, 0x0B) else (0, 0, 0, 1), (0, 0, 0, 1))" 0 0]
  show ?thesis
    using inv by (simp add: one_good_roll no_good_pitch erased_magic load_after_save)
qed

text \<open>
  The remaining path: the magic word matches and a center field fails the 21-bit check.
  \<open>loadCentersFromEEPROM\<close> has then already assigned both of its reference arguments,
  which are the globals \<open>rollCenter\<close> and \<open>pitchCenter\<close>.
\<close>

lemma cx_load:
  "loadCentersFromEEPROM
     (eeprom_of_list [0x4C, 0x43, 0x53, 0x4A, 0x00, 0x00, 0x20, 0x00, 0x05, 0x00, 0x00, 0x00]) 0 0
   = (False, 0x200000, 5)"
  by (simp add: loadCentersFromEEPROM_def eepromReadU32_def EEPROM_read_def nth_eeprom_of_list
      EEPROM_ADDR_MAGIC_def EEPROM_ADDR_ROLL_def EEPROM_ADDR_PITCH_def EEPROM_MAGIC_def)

lemma all_bad_rolls: "last_valid (bootstrap_rolls (\<lambda>i. ((0, 0, 0, 1), (0, 0, 0, 1)))) = None"
  by (rule last_valid_none) (simp add: bootstrap_rolls_def read_zero_bad)

lemma all_bad_pitches: "last_valid (bootstrap_pitches (\<lambda>i. ((0, 0, 0, 1), (0, 0, 0, 1)))) = None"
  by (rule last_valid_none) (simp add: bootstrap_pitches_def read_zero_bad)

text \<open>
  Claim C5 says that when the stored record is invalid and an axis obtains no valid
  sample in the eight bootstrap passes, its center stays at the default 0. The sketch
  misses this on one path. With the EEPROM bytes \<open>4C 43 53 4A  00 00 20 00  05 00 00 00\<close>
  (magic word intact, roll field \<open>0x200000\<close> out of range, pitch field 5) the record is
  reported invalid; with every bootstrap reading failing its CRC, no axis has a valid
  sample; and yet \<open>setup\<close> ends with \<open>pitchCenter = 5\<close> and \<open>rollCenter = 0x200000\<close>, the
  values of the rejected record, instead of 0.
\<close>

theorem bootstrap_keeps_rejected_record:
  "\<not> fst (loadCentersFromEEPROM
       (eeprom_of_list [0x4C, 0x43, 0x53, 0x4A, 0x00, 0x00, 0x20, 0x00, 0x05, 0x00, 0x00, 0x00]) 0 0)
   \<and> last_valid (bootstrap_pitches (\<lambda>i. ((0, 0, 0, 1), (0, 0, 0, 1)))) = None
   \<and> pitchCenter (sketch_setup
       (eeprom_of_list [0x4C, 0x43, 0x53, 0x4A, 0x00, 0x00, 0x20, 0x00, 0x05, 0x00, 0x00, 0x00])
       (\<lambda>i. ((0, 0, 0, 1), (0, 0, 0, 1)))) = 5
   \<and> rollCenter (sketch_setup
       (eeprom_of_list [0x4C, 0x43, 0x53, 0x4A, 0x00, 0x00, 0x20, 0x00, 0x05, 0x00, 0x00, 0x00])
       (\<lambda>i. ((0, 0, 0, 1), (0, 0, 0, 1)))) = 0x200000"
proof -
  have inv: "\<not> fst (loadCentersFromEEPROM
       (eeprom_of_list [0x4C, 0x43, 0x53, 0x4A, 0x00, 0x00, 0x20, 0x00, 0x05, 0x00, 0x00, 0x00]) 0 0)"
    by (simp add: cx_load)
  show ?thesis
    unfolding sketch_setup_invalid[OF inv] Let_def all_bad_rolls all_bad_pitches cx_load
    by simp
qed

end
